theory Spec2Isabelle
  imports Complex_Main "HOL-Library.AList"
begin

section \<open>JavaScript values\<close>

text \<open>
  The sync engine passes loosely typed values around (\<^verbatim>\<open>any\<close>, JSON columns, upstream
  payloads). They are modelled by one datatype of JavaScript values. A number is an exact
  rational, one of the two infinities, or NaN: the rounding of IEEE doubles is not
  modelled, a numeral stands for the rational it denotes.
\<close>

datatype jsnum = NaN | PInf | NInf | Fin rat

datatype jsval =
    JUndefined
  | JNull
  | JBool bool
  | JNum jsnum
  | JStr string
  | JArr "jsval list"
  | JObj "(string \<times> jsval) list"

datatype error =
    TypeError
  | Failure string

text \<open>Reading a property of \<^verbatim>\<open>null\<close> or \<^verbatim>\<open>undefined\<close> raises a TypeError.\<close>

definition nullish :: "jsval \<Rightarrow> bool" where
  "nullish v = (v = JNull \<or> v = JUndefined)"

text \<open>
  \<^verbatim>\<open>v.k\<close> for a value that is not nullish: an own property of an object (its keys are
  distinct), and \<^verbatim>\<open>undefined\<close> for a missing property and for the properties this
  program reads of a primitive or an array (\<^verbatim>\<open>type\<close>, \<^verbatim>\<open>rate\<close>,
  \<^verbatim>\<open>countries\<close>, ...).
\<close>

fun get_field :: "jsval \<Rightarrow> string \<Rightarrow> jsval" where
  "get_field (JObj fs) k = (case map_of fs k of Some v \<Rightarrow> v | None \<Rightarrow> JUndefined)"
| "get_field _ k = JUndefined"

text \<open>
  \<^verbatim>\<open>{ ...o, k: v }\<close> for an object \<^verbatim>\<open>o\<close>: the own properties in their order, \<^verbatim>\<open>k\<close>
  overwritten where it stands or added last. The program spreads objects only; a number,
  a boolean, \<^verbatim>\<open>null\<close> or \<^verbatim>\<open>undefined\<close> would spread to no property.
\<close>

fun spread_with :: "jsval \<Rightarrow> string \<Rightarrow> jsval \<Rightarrow> jsval" where
  "spread_with (JObj fs) k v = JObj (AList.update k v fs)"
| "spread_with _ k v = JObj [(k, v)]"

text \<open>\<^verbatim>\<open>xs.map(f)\<close> where \<^verbatim>\<open>f\<close> may throw: the first exception ends the map.\<close>

fun map_throwing :: "('a \<Rightarrow> error + 'b) \<Rightarrow> 'a list \<Rightarrow> error + 'b list" where
  "map_throwing f [] = Inr []"
| "map_throwing f (x # xs) =
     (case f x of
        Inl e \<Rightarrow> Inl e
      | Inr y \<Rightarrow> (case map_throwing f xs of Inl e \<Rightarrow> Inl e | Inr ys \<Rightarrow> Inr (y # ys)))"

section \<open>Trade-agreement adjustment (sync-tariffs.ts)\<close>

text \<open>
  \<^verbatim>\<open>
  function adjustRatesForTradeAgreements(rates: any[], agreementCodes: string[]): any[] {
    if (agreementCodes.includes('FTA')) {
      return rates.map(rate => {
        if (rate.type === 'standard') {
          return { ...rate, rate: 0 };
        }
        return rate;
      });
    }
    return rates;
  }
  \<close>
\<close>

definition adjust_rate :: "jsval \<Rightarrow> error + jsval" where
  "adjust_rate rate =
     (if nullish rate then Inl TypeError
      else if get_field rate ''type'' = JStr ''standard''
        then Inr (spread_with rate ''rate'' (JNum (Fin 0)))
      else Inr rate)"

definition adjustRatesForTradeAgreements :: "jsval list \<Rightarrow> string list \<Rightarrow> error + jsval list" where
  "adjustRatesForTradeAgreements rates agreementCodes =
     (if ''FTA'' \<in> set agreementCodes then map_throwing adjust_rate rates else Inr rates)"

text \<open>What the map does to an entry that is not nullish.\<close>

definition adjusted :: "jsval \<Rightarrow> jsval" where
  "adjusted rate =
     (if get_field rate ''type'' = JStr ''standard''
      then spread_with rate ''rate'' (JNum (Fin 0)) else rate)"

section \<open>Numbers\<close>

text \<open>
  Addition, subtraction, absolute value and comparison of JavaScript numbers. NaN is
  contagious, opposite infinities cancel to NaN, and every comparison with NaN is false.
\<close>

fun js_add :: "jsnum \<Rightarrow> jsnum \<Rightarrow> jsnum" where
  "js_add (Fin a) (Fin b) = Fin (a + b)"
| "js_add NaN _ = NaN"
| "js_add _ NaN = NaN"
| "js_add PInf NInf = NaN"
| "js_add NInf PInf = NaN"
| "js_add PInf _ = PInf"
| "js_add _ PInf = PInf"
| "js_add NInf _ = NInf"
| "js_add _ NInf = NInf"

fun js_neg :: "jsnum \<Rightarrow> jsnum" where
  "js_neg (Fin a) = Fin (- a)"
| "js_neg PInf = NInf"
| "js_neg NInf = PInf"
| "js_neg NaN = NaN"

definition js_sub :: "jsnum \<Rightarrow> jsnum \<Rightarrow> jsnum" where
  "js_sub a b = js_add a (js_neg b)"

fun js_abs :: "jsnum \<Rightarrow> jsnum" where
  "js_abs (Fin a) = Fin \<bar>a\<bar>"
| "js_abs PInf = PInf"
| "js_abs NInf = PInf"
| "js_abs NaN = NaN"

fun js_ge :: "jsnum \<Rightarrow> jsnum \<Rightarrow> bool" where
  "js_ge (Fin a) (Fin b) = (a \<ge> b)"
| "js_ge NaN _ = False"
| "js_ge _ NaN = False"
| "js_ge PInf _ = True"
| "js_ge _ NInf = True"
| "js_ge _ _ = False"

text \<open>\<^verbatim>\<open>x || 0\<close> on a number: the falsy numbers are 0 and NaN.\<close>

definition or_zero :: "jsnum \<Rightarrow> jsnum" where
  "or_zero x = (if x = NaN \<or> x = Fin 0 then Fin 0 else x)"

subsection \<open>parseFloat\<close>

text \<open>
  The built-in \<^verbatim>\<open>parseFloat\<close> (ECMAScript): leading white space is skipped, then the
  longest prefix that is a decimal literal is read (a sign, then \<^verbatim>\<open>Infinity\<close> or digits
  with an optional fraction and an optional exponent); what follows the prefix is ignored,
  and a string with no such prefix gives NaN.
\<close>

definition is_ws :: "char \<Rightarrow> bool" where
  "is_ws c = (c \<in> set [CHR '' '', CHR 0x09, CHR 0x0A, CHR 0x0B, CHR 0x0C, CHR 0x0D])"

definition is_digit :: "char \<Rightarrow> bool" where
  "is_digit c = (48 \<le> (of_char c :: nat) \<and> (of_char c :: nat) \<le> 57)"

definition digits_value :: "string \<Rightarrow> nat" where
  "digits_value ds = foldl (\<lambda>a c. 10 * a + ((of_char c :: nat) - 48)) 0 ds"

text \<open>The exponent part of a literal: \<^verbatim>\<open>e\<close> or \<^verbatim>\<open>E\<close>, a sign, at least one digit.\<close>

definition exponent_part :: "string \<Rightarrow> int" where
  "exponent_part s =
     (case s of
        [] \<Rightarrow> 0
      | c # r \<Rightarrow>
          if c = CHR ''e'' \<or> c = CHR ''E'' then
            (let (neg, u) =
                   (case r of
                      [] \<Rightarrow> (False, r)
                    | d # r' \<Rightarrow>
                        if d = CHR ''-'' then (True, r')
                        else if d = CHR ''+'' then (False, r')
                        else (False, r));
                 ds = takeWhile is_digit u
             in if ds = [] then 0
                else if neg then - int (digits_value ds) else int (digits_value ds))
          else 0)"

definition scale10 :: "rat \<Rightarrow> int \<Rightarrow> rat" where
  "scale10 m e = (if 0 \<le> e then m * 10 ^ nat e else m / 10 ^ nat (- e))"

definition parseFloat :: "string \<Rightarrow> jsnum" where
  "parseFloat s =
     (let t = dropWhile is_ws s;
          (neg, u) =
            (case t of
               [] \<Rightarrow> (False, t)
             | c # r \<Rightarrow>
                 if c = CHR ''-'' then (True, r)
                 else if c = CHR ''+'' then (False, r)
                 else (False, t))
      in if take 8 u = ''Infinity'' then (if neg then NInf else PInf)
         else
           (let ip = takeWhile is_digit u;
                r1 = dropWhile is_digit u;
                (fp, r2) =
                  (case r1 of
                     [] \<Rightarrow> ([], r1)
                   | c # r \<Rightarrow>
                       if c = CHR ''.'' then (takeWhile is_digit r, dropWhile is_digit r)
                       else ([], r1))
            in if ip = [] \<and> fp = [] then NaN
               else
                 (let m = of_nat (digits_value (ip @ fp)) / 10 ^ length fp
                  in Fin (scale10 (if neg then - m else m) (exponent_part r2)))))"

text \<open>
  \<^verbatim>\<open>parseFloat(String(v))\<close>. \<^verbatim>\<open>String\<close> of a string is the string; of a number it is a
  numeral that reads back as the number; of \<^verbatim>\<open>undefined\<close>, \<^verbatim>\<open>null\<close>, a boolean
  and an object it is the text below. \<^verbatim>\<open>String\<close> of an array joins the elements'
  strings with commas (\<^verbatim>\<open>null\<close> and \<^verbatim>\<open>undefined\<close> elements as empty strings): no
  numeral goes past a comma, so the parse is that of the first element.
\<close>

fun parseFloat_String :: "jsval \<Rightarrow> jsnum" where
  "parseFloat_String (JNum n) = n"
| "parseFloat_String (JStr s) = parseFloat s"
| "parseFloat_String JUndefined = parseFloat ''undefined''"
| "parseFloat_String JNull = parseFloat ''null''"
| "parseFloat_String (JBool b) = parseFloat (if b then ''true'' else ''false'')"
| "parseFloat_String (JObj fs) = parseFloat ''[object Object]''"
| "parseFloat_String (JArr []) = parseFloat ''''"
| "parseFloat_String (JArr (JNull # vs)) = parseFloat '',''"
| "parseFloat_String (JArr (JUndefined # vs)) = parseFloat '',''"
| "parseFloat_String (JArr (v # vs)) = parseFloat_String v"

section \<open>The total rate (data-aggregator.ts, sync-tariffs.ts)\<close>

text \<open>
  \<^verbatim>\<open>
  let totalRate = baseRate;
  for (const rate of additionalRates) {
    totalRate += parseFloat(String(rate.rate)) || 0;
  }
  \<close>
  Reading \<^verbatim>\<open>rate.rate\<close> of a \<^verbatim>\<open>null\<close> or \<^verbatim>\<open>undefined\<close> entry raises.
\<close>

fun total_rate_loop :: "jsnum \<Rightarrow> jsval list \<Rightarrow> error + jsnum" where
  "total_rate_loop totalRate [] = Inr totalRate"
| "total_rate_loop totalRate (rate # rest) =
     (if nullish rate then Inl TypeError
      else total_rate_loop
             (js_add totalRate (or_zero (parseFloat_String (get_field rate ''rate'')))) rest)"

section \<open>The store\<close>

text \<open>
  The persistence client is an external collaborator. Its tables are lists of rows, in
  the order of insertion. An instant is a number of milliseconds; the ISO-8601 string that
  \<^verbatim>\<open>new Date().toISOString()\<close> writes stands for the instant at that resolution and is
  modelled by it.

  Every awaited call of the client is one request. The environment decides how long a
  request takes and whether it fails: \<open>replies\<close> lists, for the requests to come, the
  time each takes and the error it reports, if any. A request answered with an error
  leaves the tables as they are. When the list is used up, requests take no time and
  succeed. A value is read back as it was written.
\<close>

record tariff_rate =
  tr_product_id :: string
  tr_country_id :: string
  tr_base_rate :: jsnum
  tr_additional_rates :: "jsval list"
  tr_total_rate :: jsnum
  tr_effective_date :: nat
  tr_updated_at :: nat

record watchlist_entry =
  wl_user_id :: string
  wl_product_id :: string
  wl_notify_changes :: bool

datatype notification_type = RateChange | NewRuling | Exclusion | System

text \<open>
  A message is written by a template literal: literal text and interpolated values. The
  text that JavaScript prints for a number is not modelled, so the value is kept.
\<close>

datatype piece = Lit string | Val jsval

record notification =
  n_user_id :: string
  n_title :: string
  n_message :: "piece list"
  n_type :: notification_type
  n_read :: bool
  n_created_at :: nat

record sync_row =
  sr_id :: nat
  sr_type :: string
  sr_status :: string
  sr_started_at :: nat
  sr_completed_at :: "nat option"
  sr_error_message :: "string option"

record trade_update =
  tu_id :: nat
  tu_title :: string
  tu_description :: "string option"
  tu_impact :: string
  tu_source_url :: string
  tu_source_reference :: string
  tu_published_date :: nat

record product =
  p_id :: string
  p_hts_code :: string
  p_name :: string
  p_category :: string
  p_base_rate :: jsnum
  p_additional_rates :: jsval
  p_last_updated :: nat

record country =
  c_id :: string
  c_code :: string
  c_name :: string

record world =
  clock :: nat
  replies :: "(nat \<times> error option) list"
  next_id :: nat
  sync_status :: "sync_row list"
  tariff_rates :: "tariff_rate list"
  user_watchlists :: "watchlist_entry list"
  notifications :: "notification list"
  trade_updates :: "trade_update list"
  products :: "product list"
  countries :: "country list"

definition request :: "world \<Rightarrow> error option \<times> world" where
  "request w =
     (case replies w of
        [] \<Rightarrow> (None, w)
      | (d, e) # rest \<Rightarrow> (e, w\<lparr>clock := clock w + d, replies := rest\<rparr>))"

text \<open>No request to come is answered with an error.\<close>

definition no_faults :: "world \<Rightarrow> bool" where
  "no_faults w = list_all (\<lambda>r. snd r = None) (replies w)"

subsection \<open>Upsert into \<^verbatim>\<open>tariff_rates\<close>\<close>

text \<open>
  \<^verbatim>\<open>.upsert(row, { onConflict: 'product_id,country_id,effective_date' })\<close>: the row that
  conflicts with the new one on these three columns is overwritten where it stands; with
  no such row the new one is inserted.
\<close>

definition conflict_key :: "tariff_rate \<Rightarrow> string \<times> string \<times> nat" where
  "conflict_key r = (tr_product_id r, tr_country_id r, tr_effective_date r)"

fun upsert :: "tariff_rate \<Rightarrow> tariff_rate list \<Rightarrow> tariff_rate list" where
  "upsert r [] = [r]"
| "upsert r (x # xs) =
     (if conflict_key x = conflict_key r then r # xs else x # upsert r xs)"

section \<open>updateTariffRates (data-aggregator.ts)\<close>

text \<open>
  \<^verbatim>\<open>
  export async function updateTariffRates(productId, countryId, baseRate, additionalRates,
                                          effectiveDate): Promise<void> {
    try {
      let totalRate = baseRate;
      for (const rate of additionalRates) {
        totalRate += parseFloat(String(rate.rate)) || 0;
      }
      const { error } = await supabase.from('tariff_rates').upsert({
          product_id: productId, country_id: countryId, base_rate: baseRate,
          additional_rates: additionalRates, total_rate: totalRate,
          effective_date: effectiveDate, updated_at: new Date().toISOString()
        }, { onConflict: 'product_id,country_id,effective_date' });
      if (error) throw error;
    } catch (error) { logger.error(...); throw error; }
  }
  \<close>
  A function that returns nothing gives the exception it throws, if any, and the world
  it leaves.
\<close>

definition updateTariffRates ::
  "string \<Rightarrow> string \<Rightarrow> jsnum \<Rightarrow> jsval list \<Rightarrow> nat \<Rightarrow> world \<Rightarrow> error option \<times> world" where
  "updateTariffRates productId countryId baseRate additionalRates effectiveDate w =
     (case total_rate_loop baseRate additionalRates of
        Inl e \<Rightarrow> (Some e, w)
      | Inr totalRate \<Rightarrow>
          (let row = \<lparr> tr_product_id = productId, tr_country_id = countryId,
                       tr_base_rate = baseRate, tr_additional_rates = additionalRates,
                       tr_total_rate = totalRate, tr_effective_date = effectiveDate,
                       tr_updated_at = clock w \<rparr>
           in case request w of
                (Some e, w1) \<Rightarrow> (Some e, w1)
              | (None, w1) \<Rightarrow> (None, w1\<lparr>tariff_rates := upsert row (tariff_rates w1)\<rparr>)))"

text \<open>
  The claim's reading of the total: the base rate plus the sum, over the entries, of the
  number parsed from \<^verbatim>\<open>rate\<close>, where a parse that yields no number counts 0.
\<close>

definition numeric_or_zero :: "jsnum \<Rightarrow> jsnum" where
  "numeric_or_zero x = (case x of NaN \<Rightarrow> Fin 0 | _ \<Rightarrow> x)"

definition js_sum :: "jsnum list \<Rightarrow> jsnum" where
  "js_sum xs = foldr js_add xs (Fin 0)"

definition spec_total_rate :: "jsnum \<Rightarrow> jsval list \<Rightarrow> jsnum" where
  "spec_total_rate baseRate additionalRates =
     js_add baseRate
       (js_sum (map (\<lambda>rate. numeric_or_zero (parseFloat_String (get_field rate ''rate'')))
                  additionalRates))"

text \<open>A world with empty tables, for examples.\<close>

definition empty_world :: world where
  "empty_world =
     \<lparr> clock = 0, replies = [], next_id = 1, sync_status = [], tariff_rates = [],
       user_watchlists = [], notifications = [], trade_updates = [], products = [],
       countries = [] \<rparr>"

section \<open>Notifications (notification-service.ts)\<close>

text \<open>
  \<^verbatim>\<open>
  export async function notifyProductWatchers(data: NotificationData): Promise<void> {
    try {
      if (!data.productId) { throw new Error('Product ID is required ...'); }
      const { data: watchlist, error: watchlistError } = await supabase
        .from('user_watchlists').select('user_id')
        .eq('product_id', data.productId).eq('notify_changes', true);
      if (watchlistError) throw watchlistError;
      if (!watchlist || watchlist.length === 0) { return; }
      const notifications = watchlist.map(item => ({
        user_id: item.user_id, title: data.title, message: data.message,
        type: data.type, read: false, created_at: new Date().toISOString() }));
      const { error } = await supabase.from('notifications').insert(notifications);
      if (error) throw error;
    } catch (error) { logger.error(...); throw error; }
  }
  \<close>
\<close>

record NotificationData =
  nd_title :: string
  nd_message :: "piece list"
  nd_type :: notification_type
  nd_productId :: "string option"

definition watchers :: "string \<Rightarrow> world \<Rightarrow> watchlist_entry list" where
  "watchers productId w =
     filter (\<lambda>item. wl_product_id item = productId \<and> wl_notify_changes item)
       (user_watchlists w)"

definition notification_for :: "NotificationData \<Rightarrow> nat \<Rightarrow> watchlist_entry \<Rightarrow> notification" where
  "notification_for data now item =
     \<lparr> n_user_id = wl_user_id item, n_title = nd_title data, n_message = nd_message data,
       n_type = nd_type data, n_read = False, n_created_at = now \<rparr>"

definition notifyProductWatchers :: "NotificationData \<Rightarrow> world \<Rightarrow> error option \<times> world" where
  "notifyProductWatchers data w =
     (case nd_productId data of
        None \<Rightarrow> (Some (Failure ''Product ID is required for product notifications''), w)
      | Some productId \<Rightarrow>
          if productId = [] then
            (Some (Failure ''Product ID is required for product notifications''), w)
          else
            (case request w of
               (Some e, w1) \<Rightarrow> (Some e, w1)
             | (None, w1) \<Rightarrow>
                 (let watchlist = watchers productId w1
                  in if watchlist = [] then (None, w1)
                     else
                       (let notifications' = map (notification_for data (clock w1)) watchlist
                        in case request w1 of
                             (Some e, w2) \<Rightarrow> (Some e, w2)
                           | (None, w2) \<Rightarrow>
                               (None, w2\<lparr>notifications := notifications w2 @ notifications'\<rparr>)))))"

text \<open>
  \<^verbatim>\<open>a !== b\<close>: primitives are compared by value and NaN differs from itself; an array or
  an object is compared by identity, and the two snapshots share none.
\<close>

fun strict_equal :: "jsval \<Rightarrow> jsval \<Rightarrow> bool" where
  "strict_equal JUndefined JUndefined = True"
| "strict_equal JNull JNull = True"
| "strict_equal (JBool a) (JBool b) = (a = b)"
| "strict_equal (JNum a) (JNum b) = (a \<noteq> NaN \<and> a = b)"
| "strict_equal (JStr a) (JStr b) = (a = b)"
| "strict_equal _ _ = False"

text \<open>\<^verbatim>\<open>Array.isArray(x) ? x.length : 0\<close>\<close>

fun array_count :: "jsval \<Rightarrow> nat" where
  "array_count (JArr xs) = length xs"
| "array_count _ = 0"

text \<open>
  \<^verbatim>\<open>
  export async function checkProductChanges(productId: string, oldData: any, newData: any) {
    try {
      if (oldData.total_rate !== newData.total_rate) {
        await notifyProductWatchers({ title: 'Tariff Rate Changed',
          message: `The tariff rate for ${newData.name} has changed from
                    ${oldData.total_rate}% to ${newData.total_rate}%`,
          type: 'rate_change', productId });
      }
      const oldRulingCount = Array.isArray(oldData.rulings) ? oldData.rulings.length : 0;
      const newRulingCount = Array.isArray(newData.rulings) ? newData.rulings.length : 0;
      if (newRulingCount > oldRulingCount) {
        await notifyProductWatchers({ title: 'New Ruling Available',
          message: `A new customs ruling has been issued for ${newData.name}`,
          type: 'new_ruling', productId });
      }
      const oldExclusionCount = Array.isArray(oldData.exclusions) ? oldData.exclusions.length : 0;
      const newExclusionCount = Array.isArray(newData.exclusions) ? newData.exclusions.length : 0;
      if (newExclusionCount > oldExclusionCount) {
        await notifyProductWatchers({ title: 'New Exclusion Available',
          message: `A new exclusion has been added for ${newData.name}`,
          type: 'exclusion', productId });
      }
    } catch (error) { logger.error(...); throw error; }
  }
  \<close>
\<close>

definition rate_changed_data :: "string \<Rightarrow> jsval \<Rightarrow> jsval \<Rightarrow> NotificationData" where
  "rate_changed_data productId oldData newData =
     \<lparr> nd_title = ''Tariff Rate Changed'',
       nd_message = [Lit ''The tariff rate for '', Val (get_field newData ''name''),
                     Lit '' has changed from '', Val (get_field oldData ''total_rate''),
                     Lit ''% to '', Val (get_field newData ''total_rate''), Lit ''%''],
       nd_type = RateChange, nd_productId = Some productId \<rparr>"

definition new_ruling_data :: "string \<Rightarrow> jsval \<Rightarrow> NotificationData" where
  "new_ruling_data productId newData =
     \<lparr> nd_title = ''New Ruling Available'',
       nd_message = [Lit ''A new customs ruling has been issued for '',
                     Val (get_field newData ''name'')],
       nd_type = NewRuling, nd_productId = Some productId \<rparr>"

definition new_exclusion_data :: "string \<Rightarrow> jsval \<Rightarrow> NotificationData" where
  "new_exclusion_data productId newData =
     \<lparr> nd_title = ''New Exclusion Available'',
       nd_message = [Lit ''A new exclusion has been added for '',
                     Val (get_field newData ''name'')],
       nd_type = Exclusion, nd_productId = Some productId \<rparr>"

text \<open>One guarded step of the function: notify when the condition holds.\<close>

definition notify_if :: "bool \<Rightarrow> NotificationData \<Rightarrow> world \<Rightarrow> error option \<times> world" where
  "notify_if cond data w = (if cond then notifyProductWatchers data w else (None, w))"

definition checkProductChanges :: "string \<Rightarrow> jsval \<Rightarrow> jsval \<Rightarrow> world \<Rightarrow> error option \<times> world" where
  "checkProductChanges productId oldData newData w =
     (if nullish oldData \<or> nullish newData then (Some TypeError, w)
      else
        (case notify_if
                (\<not> strict_equal (get_field oldData ''total_rate'') (get_field newData ''total_rate''))
                (rate_changed_data productId oldData newData) w of
           (Some e, w1) \<Rightarrow> (Some e, w1)
         | (None, w1) \<Rightarrow>
             (case notify_if
                     (array_count (get_field newData ''rulings'')
                        > array_count (get_field oldData ''rulings''))
                     (new_ruling_data productId newData) w1 of
                (Some e, w2) \<Rightarrow> (Some e, w2)
              | (None, w2) \<Rightarrow>
                  notify_if
                    (array_count (get_field newData ''exclusions'')
                       > array_count (get_field oldData ''exclusions''))
                    (new_exclusion_data productId newData) w2)))"

text \<open>
  The diff's rule for each notification type, in the claim's words: the total rate differs;
  the number of rulings, or of exclusions, has grown. A snapshot's total rate is a scalar
  of a JSON document (a number, a string, a boolean or \<^verbatim>\<open>null\<close>) or is missing.
\<close>

fun scalar :: "jsval \<Rightarrow> bool" where
  "scalar (JArr xs) = False"
| "scalar (JObj fs) = False"
| "scalar (JNum n) = (n \<noteq> NaN)"
| "scalar _ = True"

fun qualifies :: "notification_type \<Rightarrow> jsval \<Rightarrow> jsval \<Rightarrow> bool" where
  "qualifies RateChange oldData newData =
     (get_field oldData ''total_rate'' \<noteq> get_field newData ''total_rate'')"
| "qualifies NewRuling oldData newData =
     (array_count (get_field oldData ''rulings'') < array_count (get_field newData ''rulings''))"
| "qualifies Exclusion oldData newData =
     (array_count (get_field oldData ''exclusions'')
        < array_count (get_field newData ''exclusions''))"
| "qualifies System oldData newData = False"

text \<open>How many notifications of a type a list holds for a user.\<close>

definition received :: "string \<Rightarrow> notification_type \<Rightarrow> notification list \<Rightarrow> nat" where
  "received u T ns = length (filter (\<lambda>n. n_user_id n = u \<and> n_type n = T) ns)"

text \<open>How many watchlist entries ask to notify a user of changes to a product.\<close>

definition watching :: "string \<Rightarrow> string \<Rightarrow> world \<Rightarrow> nat" where
  "watching u productId w =
     length (filter (\<lambda>e. wl_user_id e = u \<and> wl_product_id e = productId \<and> wl_notify_changes e)
               (user_watchlists w))"

text \<open>
  An example for the notification properties: user u1 watches product p1 with
  notifications on, u2 watches p1 with notifications off, u3 watches another product.
\<close>

definition watch_world :: world where
  "watch_world = empty_world
     \<lparr> user_watchlists :=
         [\<lparr> wl_user_id = ''u1'', wl_product_id = ''p1'', wl_notify_changes = True \<rparr>,
          \<lparr> wl_user_id = ''u2'', wl_product_id = ''p1'', wl_notify_changes = False \<rparr>,
          \<lparr> wl_user_id = ''u3'', wl_product_id = ''p2'', wl_notify_changes = True \<rparr>] \<rparr>"

definition old_snapshot :: jsval where
  "old_snapshot = JObj [(''name'', JStr ''Widgets''), (''total_rate'', JNum (Fin 10)),
                        (''rulings'', JArr [JStr ''N1'']), (''exclusions'', JArr [])]"

definition new_snapshot :: jsval where
  "new_snapshot = JObj [(''name'', JStr ''Widgets''), (''total_rate'', JNum (Fin 12)),
                        (''rulings'', JArr [JStr ''N1'', JStr ''N2'']), (''exclusions'', JArr [])]"

section \<open>The tariff sync (sync-tariffs.ts)\<close>

text \<open>Truthiness, as \<^verbatim>\<open>!x\<close> and \<^verbatim>\<open>x || y\<close> read it.\<close>

fun truthy :: "jsval \<Rightarrow> bool" where
  "truthy JUndefined = False"
| "truthy JNull = False"
| "truthy (JBool b) = b"
| "truthy (JNum n) = (n \<noteq> NaN \<and> n \<noteq> Fin 0)"
| "truthy (JStr s) = (s \<noteq> [])"
| "truthy (JArr xs) = True"
| "truthy (JObj fs) = True"

text \<open>\<^verbatim>\<open>s.includes(t)\<close> on strings: \<^verbatim>\<open>t\<close> occurs in \<^verbatim>\<open>s\<close>.\<close>

fun str_includes :: "string \<Rightarrow> string \<Rightarrow> bool" where
  "str_includes [] t = (t = [])"
| "str_includes (c # cs) t = (take (length t) (c # cs) = t \<or> str_includes cs t)"

text \<open>
  The filter of the additional rates for a country:
  \<^verbatim>\<open>rate => !rate.countries || rate.countries.includes(country.code)\<close>.
  \<^verbatim>\<open>includes\<close> exists on arrays and on strings; on any other truthy value the call raises.
\<close>

definition applies_to :: "string \<Rightarrow> jsval \<Rightarrow> error + bool" where
  "applies_to code rate =
     (if nullish rate then Inl TypeError
      else
        (let cs = get_field rate ''countries''
         in if \<not> truthy cs then Inr True
            else
              (case cs of
                 JArr xs \<Rightarrow> Inr (JStr code \<in> set xs)
               | JStr s \<Rightarrow> Inr (str_includes s code)
               | _ \<Rightarrow> Inl TypeError)))"

fun filter_throwing :: "('a \<Rightarrow> error + bool) \<Rightarrow> 'a list \<Rightarrow> error + 'a list" where
  "filter_throwing f [] = Inr []"
| "filter_throwing f (x # xs) =
     (case f x of
        Inl e \<Rightarrow> Inl e
      | Inr keep \<Rightarrow>
          (case filter_throwing f xs of
             Inl e \<Rightarrow> Inl e
           | Inr ys \<Rightarrow> Inr (if keep then x # ys else ys)))"

text \<open>
  The previous rate:
  \<^verbatim>\<open>.from('tariff_rates').select('total_rate').eq('product_id', ..).eq('country_id', ..)
   .order('effective_date', { ascending: false }).limit(1).single()\<close>,
  the row of the pair with the latest effective date, and nothing when the pair has no row.
\<close>

fun latest :: "tariff_rate list \<Rightarrow> tariff_rate option" where
  "latest [] = None"
| "latest (r # rs) =
     (case latest rs of
        None \<Rightarrow> Some r
      | Some m \<Rightarrow> if tr_effective_date r < tr_effective_date m then Some m else Some r)"

definition previous_rate :: "string \<Rightarrow> string \<Rightarrow> world \<Rightarrow> tariff_rate option" where
  "previous_rate productId countryId w =
     latest (filter (\<lambda>r. tr_product_id r = productId \<and> tr_country_id r = countryId)
               (tariff_rates w))"

text \<open>
  The map from a country code to the codes of its agreements:
  \<^verbatim>\<open>
  for (const agreement of agreements) {
    for (const countryCode of agreement.countries) {
      if (!countryAgreements.has(countryCode)) { countryAgreements.set(countryCode, []); }
      countryAgreements.get(countryCode)?.push(agreement.code);
    }
  }
  \<close>
\<close>

record agreement =
  ag_code :: string
  ag_countries :: "string list"

definition push_code :: "string \<Rightarrow> string \<Rightarrow> (string \<rightharpoonup> string list) \<Rightarrow> (string \<rightharpoonup> string list)" where
  "push_code code countryCode m =
     m(countryCode \<mapsto> (case m countryCode of None \<Rightarrow> [] | Some cs \<Rightarrow> cs) @ [code])"

definition country_agreements :: "agreement list \<Rightarrow> (string \<rightharpoonup> string list)" where
  "country_agreements agreements =
     fold (\<lambda>a m. fold (push_code (ag_code a)) (ag_countries a) m) agreements Map.empty"

text \<open>
  The work for one product and one country (the task given to the queue):
  \<^verbatim>\<open>
  const { data: prevRate } = await supabase.from('tariff_rates')...single();
  const prevTotalRate = prevRate?.total_rate;
  let additionalRates = [];
  if (Array.isArray(product.additional_rates)) {
    additionalRates = product.additional_rates.filter(rate =>
      !rate.countries || rate.countries.includes(country.code));
  }
  const countryAgreementCodes = countryAgreements.get(country.code) || [];
  if (countryAgreementCodes.length > 0) {
    additionalRates = adjustRatesForTradeAgreements(additionalRates, countryAgreementCodes);
  }
  await updateTariffRates(product.id, country.id, product.base_rate, additionalRates,
                          new Date().toISOString());
  let newTotalRate = product.base_rate;
  for (const rate of additionalRates) {
    newTotalRate += parseFloat(String(rate.rate)) || 0;
  }
  if (prevTotalRate !== undefined && Math.abs(newTotalRate - prevTotalRate) >= 1) {
    await notifyProductWatchers({
      title: `Tariff Rate Change for ${country.name}`,
      message: `The tariff rate for ${product.name} imported from ${country.name} has
                changed from ${prevTotalRate}% to ${newTotalRate}%`,
      type: 'rate_change', productId: product.id });
  }
  \<close>
  The error of the first query is not read: a failed query gives no previous rate.
\<close>

definition rates_for_country :: "product \<Rightarrow> country \<Rightarrow> error + jsval list" where
  "rates_for_country prd ctry =
     (case p_additional_rates prd of
        JArr rates \<Rightarrow> filter_throwing (applies_to (c_code ctry)) rates
      | _ \<Rightarrow> Inr [])"

definition adjusted_rates ::
  "(string \<rightharpoonup> string list) \<Rightarrow> product \<Rightarrow> country \<Rightarrow> error + jsval list" where
  "adjusted_rates countryAgreements prd ctry =
     (case rates_for_country prd ctry of
        Inl e \<Rightarrow> Inl e
      | Inr additionalRates \<Rightarrow>
          (let countryAgreementCodes =
                 (case countryAgreements (c_code ctry) of None \<Rightarrow> [] | Some cs \<Rightarrow> cs)
           in if length countryAgreementCodes > 0
              then adjustRatesForTradeAgreements additionalRates countryAgreementCodes
              else Inr additionalRates))"

definition significant_change :: "jsnum \<Rightarrow> jsnum \<Rightarrow> bool" where
  "significant_change newTotalRate prevTotalRate =
     js_ge (js_abs (js_sub newTotalRate prevTotalRate)) (Fin 1)"

definition tariff_change_data :: "product \<Rightarrow> country \<Rightarrow> jsnum \<Rightarrow> jsnum \<Rightarrow> NotificationData" where
  "tariff_change_data prd ctry prevTotalRate newTotalRate =
     \<lparr> nd_title = ''Tariff Rate Change for '' @ c_name ctry,
       nd_message = [Lit ''The tariff rate for '', Lit (p_name prd), Lit '' imported from '',
                     Lit (c_name ctry), Lit '' has changed from '', Val (JNum prevTotalRate),
                     Lit ''% to '', Val (JNum newTotalRate), Lit ''%''],
       nd_type = RateChange, nd_productId = Some (p_id prd) \<rparr>"

definition tariff_task ::
  "(string \<rightharpoonup> string list) \<Rightarrow> product \<Rightarrow> country \<Rightarrow> world \<Rightarrow> error option \<times> world" where
  "tariff_task countryAgreements prd ctry w =
     (case request w of
        (err, w1) \<Rightarrow>
          (let prevRate = (if err = None then previous_rate (p_id prd) (c_id ctry) w1 else None)
           in case adjusted_rates countryAgreements prd ctry of
                Inl e \<Rightarrow> (Some e, w1)
              | Inr additionalRates \<Rightarrow>
                  (case updateTariffRates (p_id prd) (c_id ctry) (p_base_rate prd)
                          additionalRates (clock w1) w1 of
                     (Some e, w2) \<Rightarrow> (Some e, w2)
                   | (None, w2) \<Rightarrow>
                       (case total_rate_loop (p_base_rate prd) additionalRates of
                          Inl e \<Rightarrow> (Some e, w2)
                        | Inr newTotalRate \<Rightarrow>
                            (case prevRate of
                               None \<Rightarrow> (None, w2)
                             | Some prev \<Rightarrow>
                                 if significant_change newTotalRate (tr_total_rate prev)
                                 then notifyProductWatchers
                                        (tariff_change_data prd ctry (tr_total_rate prev)
                                           newTotalRate) w2
                                 else (None, w2))))))"

text \<open>
  An example for the tariff task: the pair (p1, c1) has a stored total rate of 10; one
  product record now totals 11.5, another 10.5.
\<close>

definition rate_world :: world where
  "rate_world = watch_world
     \<lparr> clock := 5,
       tariff_rates :=
         [\<lparr> tr_product_id = ''p1'', tr_country_id = ''c1'', tr_base_rate = Fin 10,
             tr_additional_rates = [], tr_total_rate = Fin 10, tr_effective_date = 1,
             tr_updated_at = 1 \<rparr>] \<rparr>"

definition widget :: "jsval \<Rightarrow> product" where
  "widget extra =
     \<lparr> p_id = ''p1'', p_hts_code = ''8471.30.0100'', p_name = ''Widgets'',
       p_category = ''Machines'', p_base_rate = Fin 10,
       p_additional_rates = JArr [JObj [(''type'', JStr ''section301''), (''rate'', extra)]],
       p_last_updated = 0 \<rparr>"

definition canada :: country where
  "canada = \<lparr> c_id = ''c1'', c_code = ''CA'', c_name = ''Canada'' \<rparr>"

text \<open>
  An example of a retried delivery: the first attempt's query for the watchers times out
  after its upsert went through; every request takes a millisecond.
\<close>

definition retry_world :: world where
  "retry_world = rate_world
     \<lparr> replies := [(1, None), (1, None), (1, Some (Failure ''timeout'')),
                    (1, None), (1, None), (1, None), (1, None)] \<rparr>"

subsection \<open>The run and its status row\<close>

text \<open>
  The queue (p-queue, with p-retry around each task) is a third-party scheduler: the sync
  hands it the tasks and waits for \<^verbatim>\<open>onIdle\<close>. It is a parameter of the model: a
  function from the tasks and the world to the world the tasks leave behind. No error of
  a task reaches the sync through it, since the promises \<^verbatim>\<open>queue.add\<close> returns are
  dropped.
\<close>

type_synonym task = "world \<Rightarrow> error option \<times> world"

type_synonym scheduler = "task list \<Rightarrow> world \<Rightarrow> world"

record sync_config =
  cfg_concurrency :: nat
  cfg_retries :: nat
  cfg_batchSize :: nat

text \<open>\<^verbatim>\<open>error instanceof Error ? error.message : 'Unknown error'\<close>\<close>

fun error_text :: "error \<Rightarrow> string" where
  "error_text (Failure m) = m"
| "error_text TypeError = ''TypeError''"

text \<open>
  \<^verbatim>\<open>
  const { data: syncRecord, error: syncError } = await supabase.from('sync_status')
    .insert({ type: 'tariffs', status: 'running', started_at: new Date().toISOString() })
    .select('id').single();
  if (syncError) { logger.error('Failed to create sync status record', syncError); }
  const syncId = syncRecord?.id;
  \<close>
\<close>

definition insert_sync_row :: "string \<Rightarrow> world \<Rightarrow> nat option \<times> world" where
  "insert_sync_row ty w =
     (case request w of
        (Some e, w1) \<Rightarrow> (None, w1)
      | (None, w1) \<Rightarrow>
          (Some (next_id w1),
           w1\<lparr> next_id := next_id w1 + 1,
               sync_status := sync_status w1 @
                 [\<lparr> sr_id = next_id w1, sr_type = ty, sr_status = ''running'',
                     sr_started_at = clock w, sr_completed_at = None,
                     sr_error_message = None \<rparr>] \<rparr>))"

text \<open>
  \<^verbatim>\<open>
  if (syncId) {
    await supabase.from('sync_status')
      .update({ status: 'completed', completed_at: new Date().toISOString() })
      .eq('id', syncId);
  }
  \<close>
  The result of the update is not read.
\<close>

definition complete_sync_row :: "nat option \<Rightarrow> world \<Rightarrow> world" where
  "complete_sync_row syncId w =
     (case syncId of
        None \<Rightarrow> w
      | Some i \<Rightarrow>
          if i = 0 then w
          else
            (case request w of
               (Some e, w1) \<Rightarrow> w1
             | (None, w1) \<Rightarrow>
                 w1\<lparr> sync_status :=
                       map (\<lambda>r. if sr_id r = i
                                 then r\<lparr> sr_status := ''completed'',
                                         sr_completed_at := Some (clock w) \<rparr>
                                 else r)
                         (sync_status w1) \<rparr>))"

text \<open>
  \<^verbatim>\<open>
  await supabase.from('sync_status')
    .update({ status: 'failed', error_message: ..., completed_at: new Date().toISOString() })
    .eq('type', 'tariffs').is('completed_at', null);
  throw error;
  \<close>
\<close>

definition fail_sync_rows :: "string \<Rightarrow> error \<Rightarrow> world \<Rightarrow> world" where
  "fail_sync_rows ty err w =
     (case request w of
        (Some e, w1) \<Rightarrow> w1
      | (None, w1) \<Rightarrow>
          w1\<lparr> sync_status :=
                map (\<lambda>r. if sr_type r = ty \<and> sr_completed_at r = None
                          then r\<lparr> sr_status := ''failed'',
                                  sr_error_message := Some (error_text err),
                                  sr_completed_at := Some (clock w) \<rparr>
                          else r)
                  (sync_status w1) \<rparr>)"

text \<open>
  How the body of the \<^verbatim>\<open>try\<close> block ends: it throws, it returns early, or it runs to
  the end of the block.
\<close>

datatype ending = Returned | Finished

text \<open>
  \<^verbatim>\<open>
  const { data: countries, error: countriesError } = await supabase.from('countries')
    .select('id, code, name');
  if (countriesError) throw countriesError;
  if (!countries || countries.length === 0) {
    logger.warn('No countries found, skipping tariff sync');
    return;
  }
  const agreements = await getTradeAgreements();
  ... countryAgreements ...
  const { data: products, error: productsError } = await supabase.from('products')
    .select('id, hts_code, name, base_rate, additional_rates')
    .order('last_updated', { ascending: true }).limit(config.sync.batchSize);
  if (productsError) throw productsError;
  if (!products || products.length === 0) {
    logger.warn('No products found, skipping tariff sync');
    return;
  }
  for (const product of products) {
    for (const country of countries) {
      queue.add(() => pRetry(async () => { ... }, { retries: config.sync.retries, ... }));
    }
  }
  await queue.onIdle();
  \<close>
  The answer of \<^verbatim>\<open>getTradeAgreements\<close> (an upstream fetch) is an input.
\<close>

definition sync_tariffs_body ::
  "scheduler \<Rightarrow> sync_config \<Rightarrow> error + agreement list \<Rightarrow> world \<Rightarrow> (error + ending) \<times> world" where
  "sync_tariffs_body queue cfg agreementsReply w =
     (case request w of
        (Some e, w1) \<Rightarrow> (Inl e, w1)
      | (None, w1) \<Rightarrow>
          if countries w1 = [] then (Inr Returned, w1)
          else
            (case agreementsReply of
               Inl e \<Rightarrow> (Inl e, w1)
             | Inr agreements \<Rightarrow>
                 (case request w1 of
                    (Some e, w2) \<Rightarrow> (Inl e, w2)
                  | (None, w2) \<Rightarrow>
                      (let batch = take (cfg_batchSize cfg)
                                     (sort_key p_last_updated (products w2))
                       in if batch = [] then (Inr Returned, w2)
                          else
                            (Inr Finished,
                             queue
                               (concat
                                  (map (\<lambda>prd.
                                          map (tariff_task (country_agreements agreements) prd)
                                            (countries w1))
                                     batch))
                               w2)))))"

definition syncTariffs ::
  "scheduler \<Rightarrow> sync_config \<Rightarrow> error + agreement list \<Rightarrow> world \<Rightarrow> error option \<times> world" where
  "syncTariffs queue cfg agreementsReply w =
     (case insert_sync_row ''tariffs'' w of
        (syncId, w1) \<Rightarrow>
          (case sync_tariffs_body queue cfg agreementsReply w1 of
             (Inl e, w2) \<Rightarrow> (Some e, fail_sync_rows ''tariffs'' e w2)
           | (Inr Returned, w2) \<Rightarrow> (None, w2)
           | (Inr Finished, w2) \<Rightarrow> (None, complete_sync_row syncId w2)))"

section \<open>The updates sync (sync-updates.ts)\<close>





subsection \<open>notifyAboutTradeUpdates (notification-service.ts)\<close>











subsection \<open>syncUpdates\<close>














section \<open>Source clients (usitc.ts, ustr.ts)\<close>













section \<open>RateLimiter (rate-limiter.ts)\<close>

text \<open>
  \<^verbatim>\<open>
  export class RateLimiter {
    private requests: Map<string, number[]>;
    private readonly windowMs: number;
    private readonly maxRequests: number;

    async throttle(key: string): Promise<void> {
      if (this.shouldThrottle(key)) {
        const delay = this.calculateDelay(key);
        await new Promise(resolve => setTimeout(resolve, delay));
      }
      this.addRequest(key);
    }
    private shouldThrottle(key: string): boolean {
      const timestamps = this.getTimestamps(key);
      const windowStart = Date.now() - this.windowMs;
      const requestsInWindow = timestamps.filter(time => time > windowStart);
      return requestsInWindow.length >= this.maxRequests;
    }
    private calculateDelay(key: string): number {
      const timestamps = this.getTimestamps(key);
      const windowStart = Date.now() - this.windowMs;
      const oldestInWindow = timestamps.filter(time => time > windowStart)
        .sort((a, b) => a - b)[0];
      if (!oldestInWindow) return 0;
      return oldestInWindow + this.windowMs - Date.now() + 100;
    }
    private addRequest(key: string): void {
      const timestamps = this.getTimestamps(key);
      const now = Date.now();
      timestamps.push(now);
      const windowStart = now - this.windowMs;
      const validTimestamps = timestamps.filter(time => time > windowStart);
      this.requests.set(key, validTimestamps);
    }
    private getTimestamps(key: string): number[] {
      return this.requests.get(key) || [];
    }
  }
  \<close>
  \<^verbatim>\<open>Date.now()\<close> is a parameter: the instant, in milliseconds, at which the code runs.
\<close>

record RateLimiter =
  requests :: "string \<Rightarrow> int list option"
  windowMs :: int
  maxRequests :: nat

definition getTimestamps :: "RateLimiter \<Rightarrow> string \<Rightarrow> int list" where
  "getTimestamps rl key = (case requests rl key of None \<Rightarrow> [] | Some ts \<Rightarrow> ts)"

definition in_window :: "RateLimiter \<Rightarrow> string \<Rightarrow> int \<Rightarrow> int list" where
  "in_window rl key now = filter (\<lambda>time. time > now - windowMs rl) (getTimestamps rl key)"

definition shouldThrottle :: "RateLimiter \<Rightarrow> string \<Rightarrow> int \<Rightarrow> bool" where
  "shouldThrottle rl key now = (length (in_window rl key now) \<ge> maxRequests rl)"

definition calculateDelay :: "RateLimiter \<Rightarrow> string \<Rightarrow> int \<Rightarrow> int" where
  "calculateDelay rl key now =
     (case sort (in_window rl key now) of
        [] \<Rightarrow> 0
      | oldestInWindow # _ \<Rightarrow>
          if oldestInWindow = 0 then 0 else oldestInWindow + windowMs rl - now + 100)"

definition addRequest :: "RateLimiter \<Rightarrow> string \<Rightarrow> int \<Rightarrow> RateLimiter" where
  "addRequest rl key now =
     rl\<lparr> requests := (requests rl)
           (key \<mapsto> filter (\<lambda>time. time > now - windowMs rl) (getTimestamps rl key @ [now])) \<rparr>"

text \<open>
  \<^verbatim>\<open>throttle\<close> runs in one piece when the budget allows, and in two pieces around the
  timer otherwise: the check and the computation of the delay at the instant of the call,
  the record when the timer has fired. Other calls may run between the two pieces.
\<close>

datatype begun = Recorded RateLimiter | Suspended int

definition throttle_begin :: "RateLimiter \<Rightarrow> string \<Rightarrow> int \<Rightarrow> begun" where
  "throttle_begin rl key now =
     (if shouldThrottle rl key now then Suspended (calculateDelay rl key now)
      else Recorded (addRequest rl key now))"

definition throttle_resume :: "RateLimiter \<Rightarrow> string \<Rightarrow> int \<Rightarrow> RateLimiter" where
  "throttle_resume rl key now = addRequest rl key now"

text \<open>The limiter of the spec's scenario: two requests per second.\<close>

definition two_per_second :: RateLimiter where
  "two_per_second = \<lparr> requests = Map.empty, windowMs = 1000, maxRequests = 2 \<rparr>"

section \<open>The retry queue\<close>








text \<open>
  A call that is awaited before the next one is issued: the record follows the check at
  once, or when the timer has fired at the instant \<open>woke\<close>.
\<close>

definition throttle_awaited :: "RateLimiter \<Rightarrow> string \<Rightarrow> int \<Rightarrow> int \<Rightarrow> RateLimiter" where
  "throttle_awaited rl key now woke =
     (case throttle_begin rl key now of
        Recorded rl' \<Rightarrow> rl'
      | Suspended delay \<Rightarrow> throttle_resume rl key woke)"

section \<open>Properties\<close>

subsection \<open>The trade-agreement adjustment\<close>

lemma map_throwing_total:
  assumes "\<And>x. x \<in> set xs \<Longrightarrow> f x = Inr (g x)"
  shows "map_throwing f xs = Inr (map g xs)"
  using assms by (induction xs) simp_all

lemma get_field_update_other:
  "k \<noteq> k' \<Longrightarrow> get_field (spread_with r k' v) k = get_field r k"
  by (cases r) (simp_all add: update_conv')

lemma get_field_update_same: "get_field (spread_with r k v) k = v"
  by (cases r) (simp_all add: update_conv')

lemma adjust_rate_adjusted: "\<not> nullish r \<Longrightarrow> adjust_rate r = Inr (adjusted r)"
  by (simp add: adjust_rate_def adjusted_def)

text \<open>
  C10. The adjustment keeps the length of the list; an entry whose type is not
  \<^verbatim>\<open>'standard'\<close> is returned as it is; without the code \<^verbatim>\<open>'FTA'\<close> the whole list is
  returned as it is; and the only property an entry can differ in is \<^verbatim>\<open>rate\<close>, which is
  then 0 on an entry of type \<^verbatim>\<open>'standard'\<close>. (The entries are those the caller's filter
  let through: it reads a property of each, so none is \<^verbatim>\<open>null\<close> or \<^verbatim>\<open>undefined\<close>.)
\<close>

theorem adjustRatesForTradeAgreements_frame:
  assumes "\<forall>r \<in> set rates. \<not> nullish r"
  shows "\<exists>out. adjustRatesForTradeAgreements rates codes = Inr out
           \<and> length out = length rates
           \<and> (''FTA'' \<notin> set codes \<longrightarrow> out = rates)
           \<and> (\<forall>i < length rates.
                 (get_field (rates ! i) ''type'' \<noteq> JStr ''standard'' \<longrightarrow> out ! i = rates ! i)
               \<and> (\<forall>k. k \<noteq> ''rate'' \<longrightarrow> get_field (out ! i) k = get_field (rates ! i) k)
               \<and> (out ! i \<noteq> rates ! i \<longrightarrow>
                     get_field (rates ! i) ''type'' = JStr ''standard''
                   \<and> get_field (out ! i) ''rate'' = JNum (Fin 0)))"
proof (cases "''FTA'' \<in> set codes")
  case False
  then show ?thesis by (simp add: adjustRatesForTradeAgreements_def)
next
  case True
  have run: "map_throwing adjust_rate rates = Inr (map adjusted rates)"
    by (rule map_throwing_total) (use assms in \<open>simp add: adjust_rate_adjusted\<close>)
  have each: "(get_field r ''type'' \<noteq> JStr ''standard'' \<longrightarrow> adjusted r = r)
      \<and> (\<forall>k. k \<noteq> ''rate'' \<longrightarrow> get_field (adjusted r) k = get_field r k)
      \<and> (adjusted r \<noteq> r \<longrightarrow> get_field r ''type'' = JStr ''standard''
            \<and> get_field (adjusted r) ''rate'' = JNum (Fin 0))" for r
    by (simp add: adjusted_def get_field_update_other get_field_update_same)
  show ?thesis
    using True run each by (simp add: adjustRatesForTradeAgreements_def)
qed

theorem adjustRatesForTradeAgreements_frame_witness:
  "\<not> nullish (JObj [(''type'', JStr ''standard''), (''rate'', JNum (Fin 25))])
   \<and> \<not> nullish (JObj [(''type'', JStr ''section301''), (''rate'', JStr ''7.5'')])
   \<and> (\<exists>out. adjustRatesForTradeAgreements
                [JObj [(''type'', JStr ''standard''), (''rate'', JNum (Fin 25))],
                 JObj [(''type'', JStr ''section301''), (''rate'', JStr ''7.5'')]]
                [''USMCA'', ''FTA''] = Inr out
          \<and> length out = 2
          \<and> out ! 0 = JObj [(''type'', JStr ''standard''), (''rate'', JNum (Fin 0))]
          \<and> out ! 1 = JObj [(''type'', JStr ''section301''), (''rate'', JStr ''7.5'')])"
  using adjustRatesForTradeAgreements_frame
    [of "[JObj [(''type'', JStr ''standard''), (''rate'', JNum (Fin 25))],
          JObj [(''type'', JStr ''section301''), (''rate'', JStr ''7.5'')]]"
        "[''USMCA'', ''FTA'']"]
  by (simp add: nullish_def adjustRatesForTradeAgreements_def adjust_rate_def)

subsection \<open>The total rate\<close>

lemma js_add_assoc: "js_add (js_add a b) c = js_add a (js_add b c)"
  by (cases a; cases b; cases c) simp_all

lemma js_add_zero: "js_add a (Fin 0) = a"
  by (cases a) simp_all

lemma or_zero_numeric: "or_zero x = numeric_or_zero x"
  by (cases x) (simp_all add: or_zero_def numeric_or_zero_def)

lemma total_rate_loop_sum:
  assumes "\<forall>rate \<in> set rs. \<not> nullish rate"
  shows "total_rate_loop acc rs =
           Inr (js_add acc
                  (js_sum (map (\<lambda>rate. numeric_or_zero (parseFloat_String (get_field rate ''rate'')))
                             rs)))"
  using assms
proof (induction rs arbitrary: acc)
  case Nil
  then show ?case by (simp add: js_sum_def js_add_zero)
next
  case (Cons r rs)
  then show ?case by (simp add: js_sum_def js_add_assoc or_zero_numeric)
qed





subsection \<open>Notifications\<close>

lemma request_no_faults:
  assumes "no_faults w"
  shows "\<exists>w1. request w = (None, w1) \<and> no_faults w1
           \<and> tariff_rates w1 = tariff_rates w \<and> user_watchlists w1 = user_watchlists w
           \<and> notifications w1 = notifications w \<and> sync_status w1 = sync_status w
           \<and> trade_updates w1 = trade_updates w \<and> products w1 = products w
           \<and> countries w1 = countries w \<and> next_id w1 = next_id w"
  using assms by (cases "replies w") (auto simp: request_def no_faults_def)

lemma notifyProductWatchers_inserts:
  assumes "no_faults w" and "nd_productId data = Some productId" and "productId \<noteq> []"
  shows "\<exists>w' t. notifyProductWatchers data w = (None, w') \<and> no_faults w'
           \<and> notifications w' = notifications w @ map (notification_for data t) (watchers productId w)
           \<and> tariff_rates w' = tariff_rates w \<and> user_watchlists w' = user_watchlists w
           \<and> sync_status w' = sync_status w \<and> trade_updates w' = trade_updates w
           \<and> products w' = products w \<and> countries w' = countries w
           \<and> next_id w' = next_id w"
proof -
  obtain w1 where r1: "request w = (None, w1)" "no_faults w1"
      "user_watchlists w1 = user_watchlists w" "notifications w1 = notifications w"
      "tariff_rates w1 = tariff_rates w" "sync_status w1 = sync_status w"
      "trade_updates w1 = trade_updates w" "products w1 = products w"
      "countries w1 = countries w" "next_id w1 = next_id w"
    using request_no_faults [OF assms(1)] by blast
  have ws: "watchers productId w1 = watchers productId w"
    by (simp add: watchers_def r1)
  show ?thesis
  proof (cases "watchers productId w = []")
    case True
    then show ?thesis
      using assms(2,3) r1 ws by (simp add: notifyProductWatchers_def)
  next
    case False
    obtain w2 where r2: "request w1 = (None, w2)" "no_faults w2"
        "user_watchlists w2 = user_watchlists w1" "notifications w2 = notifications w1"
        "tariff_rates w2 = tariff_rates w1" "sync_status w2 = sync_status w1"
        "trade_updates w2 = trade_updates w1" "products w2 = products w1"
        "countries w2 = countries w1" "next_id w2 = next_id w1"
      using request_no_faults [OF r1(2)] by blast
    have nf: "no_faults (w2\<lparr>notifications := ns\<rparr>)" for ns
      using r2(2) by (simp add: no_faults_def)
    show ?thesis
      using assms(2,3) r1 r2 ws False nf
      by (auto simp: notifyProductWatchers_def Let_def intro!: exI [of _ "clock w1"])
  qed
qed

lemma notify_if_inserts:
  assumes "no_faults w" and "nd_productId data = Some productId" and "productId \<noteq> []"
  shows "\<exists>w' t. notify_if cond data w = (None, w') \<and> no_faults w'
           \<and> notifications w' = notifications w
                @ (if cond then map (notification_for data t) (watchers productId w) else [])
           \<and> user_watchlists w' = user_watchlists w"
proof (cases cond)
  case True
  then show ?thesis
    using notifyProductWatchers_inserts [OF assms] by (auto simp: notify_if_def)
next
  case False
  then show ?thesis using assms(1) by (simp add: notify_if_def)
qed

lemma strict_equal_scalar: "scalar a \<Longrightarrow> scalar b \<Longrightarrow> strict_equal a b = (a = b)"
  by (cases a; cases b) auto

lemma received_append: "received u T (xs @ ys) = received u T xs + received u T ys"
  by (simp add: received_def)

lemma received_map:
  "received u T (map (notification_for data t) ws)
     = (if nd_type data = T then length (filter (\<lambda>e. wl_user_id e = u) ws) else 0)"
  by (induction ws) (auto simp: received_def notification_for_def)

lemma watchers_count:
  "length (filter (\<lambda>e. wl_user_id e = u) (watchers productId w)) = watching u productId w"
  by (simp add: watchers_def watching_def conj_commute conj_left_commute) 
text \<open>
  C8. \<^verbatim>\<open>checkProductChanges\<close>, when no request fails: the notifications it inserts give
  each user, for each type whose rule qualifies (the total rate differs: \<open>RateChange\<close>;
  more rulings: \<open>NewRuling\<close>; more exclusions: \<open>Exclusion\<close>), one notification per
  watchlist entry of that user for the product with \<^verbatim>\<open>notify_changes\<close> set, and none for
  a type that does not qualify. So a watcher receives exactly one per qualifying
  dimension, a user whose entry has the flag off or names another product receives none,
  and with no watchers nothing is inserted.
\<close>

theorem checkProductChanges_notifies:
  assumes "no_faults w" and "productId \<noteq> []"
      and "\<not> nullish oldData" and "\<not> nullish newData"
      and "scalar (get_field oldData ''total_rate'')"
      and "scalar (get_field newData ''total_rate'')"
  shows "\<exists>w' inserted. checkProductChanges productId oldData newData w = (None, w')
           \<and> notifications w' = notifications w @ inserted
           \<and> (\<forall>u T. received u T inserted
                      = (if qualifies T oldData newData then watching u productId w else 0))
           \<and> (watchers productId w = [] \<longrightarrow> inserted = [])"
proof -
  let ?c1 = "\<not> strict_equal (get_field oldData ''total_rate'') (get_field newData ''total_rate'')"
  let ?c2 = "array_count (get_field newData ''rulings'') > array_count (get_field oldData ''rulings'')"
  let ?c3 = "array_count (get_field newData ''exclusions'')
               > array_count (get_field oldData ''exclusions'')"
  let ?d1 = "rate_changed_data productId oldData newData"
  let ?d2 = "new_ruling_data productId newData"
  let ?d3 = "new_exclusion_data productId newData"
  let ?ws = "watchers productId w"
  have c1: "?c1 = qualifies RateChange oldData newData"
    using assms(5,6) by (simp add: strict_equal_scalar)
  have pids: "nd_productId ?d1 = Some productId" "nd_productId ?d2 = Some productId"
      "nd_productId ?d3 = Some productId"
    by (simp_all add: rate_changed_data_def new_ruling_data_def new_exclusion_data_def)
  obtain w1 t1 where s1: "notify_if ?c1 ?d1 w = (None, w1)" "no_faults w1"
      "notifications w1 = notifications w
         @ (if ?c1 then map (notification_for ?d1 t1) ?ws else [])"
      "user_watchlists w1 = user_watchlists w"
    using notify_if_inserts [OF assms(1) pids(1) assms(2), of ?c1] by blast
  have ws1: "watchers productId w1 = ?ws" by (simp add: watchers_def s1(4))
  obtain w2 t2 where s2: "notify_if ?c2 ?d2 w1 = (None, w2)" "no_faults w2"
      "notifications w2 = notifications w1
         @ (if ?c2 then map (notification_for ?d2 t2) ?ws else [])"
      "user_watchlists w2 = user_watchlists w1"
    using notify_if_inserts [OF s1(2) pids(2) assms(2), of ?c2] unfolding ws1 by blast
  have ws2: "watchers productId w2 = ?ws" by (simp add: watchers_def s2(4) s1(4))
  obtain w3 t3 where s3: "notify_if ?c3 ?d3 w2 = (None, w3)"
      "notifications w3 = notifications w2
         @ (if ?c3 then map (notification_for ?d3 t3) ?ws else [])"
    using notify_if_inserts [OF s2(2) pids(3) assms(2), of ?c3] unfolding ws2 by blast
  define inserted where "inserted =
      (if ?c1 then map (notification_for ?d1 t1) ?ws else [])
    @ (if ?c2 then map (notification_for ?d2 t2) ?ws else [])
    @ (if ?c3 then map (notification_for ?d3 t3) ?ws else [])"
  have run: "checkProductChanges productId oldData newData w = (None, w3)"
    using assms(3,4) s1(1) s2(1) s3(1) by (simp add: checkProductChanges_def)
  have all: "notifications w3 = notifications w @ inserted"
    by (simp add: s1(3) s2(3) s3(2) inserted_def)
  have types: "nd_type ?d1 = RateChange" "nd_type ?d2 = NewRuling" "nd_type ?d3 = Exclusion"
    by (simp_all add: rate_changed_data_def new_ruling_data_def new_exclusion_data_def)
  have counts: "received u T inserted
                  = (if qualifies T oldData newData then watching u productId w else 0)" for u T
    using c1
    by (cases T)
       (simp_all add: inserted_def received_append received_map types watchers_count
          del: qualifies.simps(1), simp_all add: received_def)
  have none: "?ws = [] \<longrightarrow> inserted = []"
    by (simp add: inserted_def)
  show ?thesis
    using run all counts none by blast
qed
theorem checkProductChanges_notifies_witness:
  "no_faults watch_world \<and> ''p1'' \<noteq> []
   \<and> \<not> nullish old_snapshot \<and> \<not> nullish new_snapshot
   \<and> scalar (get_field old_snapshot ''total_rate'')
   \<and> scalar (get_field new_snapshot ''total_rate'')
   \<and> (\<exists>w' inserted. checkProductChanges ''p1'' old_snapshot new_snapshot watch_world = (None, w')
          \<and> notifications w' = notifications watch_world @ inserted
          \<and> received ''u1'' RateChange inserted = 1
          \<and> received ''u1'' NewRuling inserted = 1
          \<and> received ''u1'' Exclusion inserted = 0
          \<and> received ''u2'' RateChange inserted = 0
          \<and> received ''u2'' NewRuling inserted = 0
          \<and> received ''u3'' RateChange inserted = 0
          \<and> received ''u3'' NewRuling inserted = 0)"
proof -
  have h: "no_faults watch_world" "''p1'' \<noteq> []"
      "\<not> nullish old_snapshot" "\<not> nullish new_snapshot"
      "scalar (get_field old_snapshot ''total_rate'')"
      "scalar (get_field new_snapshot ''total_rate'')"
    by (simp_all add: no_faults_def watch_world_def empty_world_def nullish_def
        old_snapshot_def new_snapshot_def)
  have q: "qualifies RateChange old_snapshot new_snapshot"
      "qualifies NewRuling old_snapshot new_snapshot"
      "\<not> qualifies Exclusion old_snapshot new_snapshot"
    by (simp_all add: old_snapshot_def new_snapshot_def)
  have n: "watching ''u1'' ''p1'' watch_world = 1" "watching ''u2'' ''p1'' watch_world = 0"
      "watching ''u3'' ''p1'' watch_world = 0"
    by (simp_all add: watching_def watch_world_def empty_world_def)
  obtain w' inserted where
    r: "checkProductChanges ''p1'' old_snapshot new_snapshot watch_world = (None, w')"
       "notifications w' = notifications watch_world @ inserted"
       "\<forall>u T. received u T inserted
                = (if qualifies T old_snapshot new_snapshot then watching u ''p1'' watch_world
                   else 0)"
    using checkProductChanges_notifies [OF h] by blast
  show ?thesis
    using h r(1,2) r(3) [rule_format, of _ RateChange] r(3) [rule_format, of _ NewRuling]
      r(3) [rule_format, of _ Exclusion] q n
    by simp
qed

subsection \<open>The tariff task\<close>




lemma updateTariffRates_no_faults:
  assumes "no_faults w" and "\<forall>r \<in> set rates. \<not> nullish r"
  shows "\<exists>w'. updateTariffRates productId countryId baseRate rates effectiveDate w = (None, w')
           \<and> no_faults w'
           \<and> tariff_rates w' =
               upsert \<lparr> tr_product_id = productId, tr_country_id = countryId,
                        tr_base_rate = baseRate, tr_additional_rates = rates,
                        tr_total_rate = spec_total_rate baseRate rates,
                        tr_effective_date = effectiveDate, tr_updated_at = clock w \<rparr>
                 (tariff_rates w)
           \<and> notifications w' = notifications w \<and> user_watchlists w' = user_watchlists w
           \<and> sync_status w' = sync_status w"
proof -
  obtain w1 where r1: "request w = (None, w1)" "no_faults w1"
      "tariff_rates w1 = tariff_rates w" "user_watchlists w1 = user_watchlists w"
      "notifications w1 = notifications w" "sync_status w1 = sync_status w"
    using request_no_faults [OF assms(1)] by blast
  have loop: "total_rate_loop baseRate rates = Inr (spec_total_rate baseRate rates)"
    using total_rate_loop_sum [OF assms(2)] by (simp add: spec_total_rate_def)
  have nf: "no_faults (w1\<lparr>tariff_rates := ts\<rparr>)" for ts
    using r1(2) by (simp add: no_faults_def)
  show ?thesis
    by (simp add: updateTariffRates_def loop r1 nf)
qed



subsection \<open>Upserts and repeated deliveries\<close>

lemma upsert_keys:
  "set (map conflict_key (upsert r xs)) = insert (conflict_key r) (set (map conflict_key xs))"
  by (induction xs) auto

lemma upsert_distinct:
  "distinct (map conflict_key xs) \<Longrightarrow> distinct (map conflict_key (upsert r xs))"
proof (induction xs)
  case Nil
  then show ?case by simp
next
  case (Cons x xs)
  show ?case
  proof (cases "conflict_key x = conflict_key r")
    case True
    then show ?thesis using Cons.prems by simp
  next
    case False
    have "conflict_key x \<notin> set (map conflict_key (upsert r xs))"
      using Cons.prems False unfolding upsert_keys by simp
    then show ?thesis using Cons False by simp
  qed
qed

lemma upsert_same_key:
  "distinct (map conflict_key xs) \<Longrightarrow>
     filter (\<lambda>x. conflict_key x = conflict_key r) (upsert r xs) = [r]"
proof (induction xs)
  case Nil
  then show ?case by simp
next
  case (Cons x xs)
  show ?case
  proof (cases "conflict_key x = conflict_key r")
    case True
    have "conflict_key r \<notin> conflict_key ` set xs"
      using Cons.prems True by simp
    then have "filter (\<lambda>y. conflict_key y = conflict_key r) xs = []"
      by (auto simp: filter_empty_conv image_iff)
    then show ?thesis using True by simp
  next
    case False
    then show ?thesis using Cons by simp
  qed
qed

lemma upsert_other_key:
  "k \<noteq> conflict_key r \<Longrightarrow>
     filter (\<lambda>x. conflict_key x = k) (upsert r xs) = filter (\<lambda>x. conflict_key x = k) xs"
  by (induction xs) auto

lemma upsert_other_rows:
  "conflict_key x \<noteq> conflict_key r \<Longrightarrow> x \<in> set (upsert r xs) \<longleftrightarrow> x \<in> set xs"
  by (induction xs) auto

text \<open>
  C4, as the code has it. Two calls of \<^verbatim>\<open>updateTariffRates\<close> for a product and a
  country, on a table that satisfies its unique key: the row under the second call's key
  is exactly one and carries the second payload; rows under other keys stay as they were.
  When both calls carry the same effective date the first payload is overwritten; when
  the dates differ, the first call's row is kept beside the second. The tariff sync passes
  the instant of the call as effective date, so a repeated delivery at a later instant
  adds a row.
\<close>

theorem updateTariffRates_twice:
  assumes "no_faults w" and "distinct (map conflict_key (tariff_rates w))"
      and "\<forall>r \<in> set rates1. \<not> nullish r" and "\<forall>r \<in> set rates2. \<not> nullish r"
  shows "\<exists>w1 w2.
           updateTariffRates productId countryId base1 rates1 date1 w = (None, w1)
         \<and> updateTariffRates productId countryId base2 rates2 date2 w1 = (None, w2)
         \<and> filter (\<lambda>r. conflict_key r = (productId, countryId, date2)) (tariff_rates w2)
             = [\<lparr> tr_product_id = productId, tr_country_id = countryId, tr_base_rate = base2,
                   tr_additional_rates = rates2,
                   tr_total_rate = spec_total_rate base2 rates2,
                   tr_effective_date = date2, tr_updated_at = clock w1 \<rparr>]
         \<and> (date1 \<noteq> date2 \<longrightarrow>
               filter (\<lambda>r. conflict_key r = (productId, countryId, date1)) (tariff_rates w2)
                 = [\<lparr> tr_product_id = productId, tr_country_id = countryId,
                       tr_base_rate = base1, tr_additional_rates = rates1,
                       tr_total_rate = spec_total_rate base1 rates1,
                       tr_effective_date = date1, tr_updated_at = clock w \<rparr>])
         \<and> (\<forall>r. conflict_key r \<noteq> (productId, countryId, date1)
                 \<and> conflict_key r \<noteq> (productId, countryId, date2)
                 \<longrightarrow> (r \<in> set (tariff_rates w2) \<longleftrightarrow> r \<in> set (tariff_rates w)))
         \<and> distinct (map conflict_key (tariff_rates w2))"
proof -
  let ?row1 = "\<lparr> tr_product_id = productId, tr_country_id = countryId, tr_base_rate = base1,
                  tr_additional_rates = rates1, tr_total_rate = spec_total_rate base1 rates1,
                  tr_effective_date = date1, tr_updated_at = clock w \<rparr>"
  obtain w1 where u1:
      "updateTariffRates productId countryId base1 rates1 date1 w = (None, w1)"
      "no_faults w1" "tariff_rates w1 = upsert ?row1 (tariff_rates w)"
    using updateTariffRates_no_faults [OF assms(1,3)] by blast
  let ?row2 = "\<lparr> tr_product_id = productId, tr_country_id = countryId, tr_base_rate = base2,
                  tr_additional_rates = rates2, tr_total_rate = spec_total_rate base2 rates2,
                  tr_effective_date = date2, tr_updated_at = clock w1 \<rparr>"
  obtain w2 where u2:
      "updateTariffRates productId countryId base2 rates2 date2 w1 = (None, w2)"
      "tariff_rates w2 = upsert ?row2 (tariff_rates w1)"
    using updateTariffRates_no_faults [OF u1(2) assms(4)] by blast
  have k1: "conflict_key ?row1 = (productId, countryId, date1)"
    and k2: "conflict_key ?row2 = (productId, countryId, date2)"
    by (simp_all add: conflict_key_def)
  have d1: "distinct (map conflict_key (tariff_rates w1))"
    unfolding u1(3) by (rule upsert_distinct [OF assms(2)])
  have d2: "distinct (map conflict_key (tariff_rates w2))"
    unfolding u2(2) by (rule upsert_distinct [OF d1])
  have second: "filter (\<lambda>r. conflict_key r = (productId, countryId, date2)) (tariff_rates w2)
                  = [?row2]"
    using upsert_same_key [OF d1, of ?row2] unfolding u2(2) k2 .
  have first: "filter (\<lambda>r. conflict_key r = (productId, countryId, date1)) (tariff_rates w2)
                 = [?row1]" if "date1 \<noteq> date2"
  proof -
    have "(productId, countryId, date1) \<noteq> conflict_key ?row2"
      using that by (simp add: k2)
    then have "filter (\<lambda>r. conflict_key r = (productId, countryId, date1)) (tariff_rates w2)
        = filter (\<lambda>r. conflict_key r = (productId, countryId, date1)) (tariff_rates w1)"
      unfolding u2(2) by (rule upsert_other_key)
    also have "\<dots> = [?row1]"
      using upsert_same_key [OF assms(2), of ?row1] unfolding u1(3) k1 .
    finally show ?thesis .
  qed
  have others: "r \<in> set (tariff_rates w2) \<longleftrightarrow> r \<in> set (tariff_rates w)"
    if "conflict_key r \<noteq> (productId, countryId, date1)"
      and "conflict_key r \<noteq> (productId, countryId, date2)" for r
    using that upsert_other_rows [of r ?row2 "tariff_rates w1"]
      upsert_other_rows [of r ?row1 "tariff_rates w"]
    unfolding u1(3) u2(2) k1 k2 by simp
  show ?thesis
    using u1(1) u2(1) second first others d2 by blast
qed
theorem updateTariffRates_twice_witness:
  "no_faults rate_world \<and> distinct (map conflict_key (tariff_rates rate_world))
   \<and> \<not> nullish (JObj [(''rate'', JStr ''2.5'')])
   \<and> (\<exists>w1 w2.
          updateTariffRates ''p1'' ''c1'' (Fin 5) [JObj [(''rate'', JStr ''2.5'')]] 7 rate_world
            = (None, w1)
        \<and> updateTariffRates ''p1'' ''c1'' (Fin 6) [] 7 w1 = (None, w2)
        \<and> map tr_total_rate
              (filter (\<lambda>r. conflict_key r = (''p1'', ''c1'', 7)) (tariff_rates w2)) = [Fin 6])"
proof -
  have h: "no_faults rate_world" "distinct (map conflict_key (tariff_rates rate_world))"
      "\<forall>r \<in> set [JObj [(''rate'', JStr ''2.5'')]]. \<not> nullish r" "\<forall>r \<in> set []. \<not> nullish r"
    by (simp_all add: no_faults_def rate_world_def watch_world_def empty_world_def nullish_def
        conflict_key_def)
  have t: "spec_total_rate (Fin 6) [] = Fin 6"
    by (simp add: spec_total_rate_def js_sum_def)
  obtain w1 w2 where
    r: "updateTariffRates ''p1'' ''c1'' (Fin 5) [JObj [(''rate'', JStr ''2.5'')]] 7 rate_world
          = (None, w1)"
       "updateTariffRates ''p1'' ''c1'' (Fin 6) [] 7 w1 = (None, w2)"
       "filter (\<lambda>r. conflict_key r = (''p1'', ''c1'', 7)) (tariff_rates w2)
          = [\<lparr> tr_product_id = ''p1'', tr_country_id = ''c1'', tr_base_rate = Fin 6,
                tr_additional_rates = [], tr_total_rate = spec_total_rate (Fin 6) [],
                tr_effective_date = 7, tr_updated_at = clock w1 \<rparr>]"
    using updateTariffRates_twice [OF h, of "''p1''" "''c1''" "Fin 5" 7 "Fin 6" 7] by blast
  show ?thesis
    using h(1,2) r t by (auto simp: nullish_def)
qed

text \<open>
  C4 as stated fails on the sync's own deliveries. The first attempt of the task for
  (p1, c1) stores its row and then fails while notifying; the retry stores a second row,
  stamped with its own instant: the work of one item has left the rows dated 6 and 9
  beside the old one.
\<close>

theorem tariff_task_retry_counterexample:
  "fst (tariff_task Map.empty (widget (JStr ''1.5'')) canada retry_world)
     = Some (Failure ''timeout'')
   \<and> map tr_effective_date
        (tariff_rates (snd (tariff_task Map.empty (widget (JStr ''1.5'')) canada retry_world)))
     = [1, 6]
   \<and> fst (tariff_task Map.empty (widget (JStr ''1.5'')) canada
             (snd (tariff_task Map.empty (widget (JStr ''1.5'')) canada retry_world)))
     = None
   \<and> map tr_effective_date
        (tariff_rates
           (snd (tariff_task Map.empty (widget (JStr ''1.5'')) canada
                   (snd (tariff_task Map.empty (widget (JStr ''1.5'')) canada retry_world)))))
     = [1, 6, 9]"
  by code_simp

subsection \<open>The status row of a tariff run\<close>

lemma syncTariffs_returns_early:
  assumes "no_faults w" and "countries w = []"
  shows "\<exists>w'. syncTariffs queue cfg agreementsReply w = (None, w')
           \<and> sync_status w' = sync_status w @
                [\<lparr> sr_id = next_id w, sr_type = ''tariffs'', sr_status = ''running'',
                    sr_started_at = clock w, sr_completed_at = None,
                    sr_error_message = None \<rparr>]"
proof -
  obtain w1 where r1: "request w = (None, w1)" "no_faults w1"
      "sync_status w1 = sync_status w" "countries w1 = countries w" "next_id w1 = next_id w"
    using request_no_faults [OF assms(1)] by blast
  let ?w1 = "w1\<lparr> next_id := next_id w1 + 1,
                   sync_status := sync_status w1 @
                     [\<lparr> sr_id = next_id w1, sr_type = ''tariffs'', sr_status = ''running'',
                         sr_started_at = clock w, sr_completed_at = None,
                         sr_error_message = None \<rparr>] \<rparr>"
  have ins: "insert_sync_row ''tariffs'' w = (Some (next_id w1), ?w1)"
    by (simp add: insert_sync_row_def r1(1))
  have nf: "no_faults ?w1"
    using r1(2) by (simp add: no_faults_def)
  obtain w2 where r2: "request ?w1 = (None, w2)"
      "sync_status w2 = sync_status ?w1" "countries w2 = countries ?w1"
    using request_no_faults [OF nf] by blast
  have body: "sync_tariffs_body queue cfg agreementsReply ?w1 = (Inr Returned, w2)"
    using r2 r1(4) assms(2) by (simp add: sync_tariffs_body_def)
  show ?thesis
    using ins body r2(2) r1(3,5) by (simp add: syncTariffs_def)
qed

text \<open>
  C5 fails on the tariff sync. A run that finds no countries, or countries and no
  products, returns from inside the \<^verbatim>\<open>try\<close> block: the row it created stays
  \<^verbatim>\<open>running\<close> with no completion time, whatever the queue, the configuration and the
  agreements are.
\<close>

theorem syncTariffs_no_countries_stuck_running:
  "fst (syncTariffs queue cfg agreementsReply empty_world) = None
   \<and> sync_status (snd (syncTariffs queue cfg agreementsReply empty_world))
       = [\<lparr> sr_id = 1, sr_type = ''tariffs'', sr_status = ''running'', sr_started_at = 0,
             sr_completed_at = None, sr_error_message = None \<rparr>]
   \<and> fst (syncTariffs queue cfg (Inr agreements) (empty_world\<lparr>countries := [canada]\<rparr>)) = None
   \<and> sync_status
        (snd (syncTariffs queue cfg (Inr agreements) (empty_world\<lparr>countries := [canada]\<rparr>)))
       = [\<lparr> sr_id = 1, sr_type = ''tariffs'', sr_status = ''running'', sr_started_at = 0,
             sr_completed_at = None, sr_error_message = None \<rparr>]"
proof -
  have "no_faults empty_world" "countries empty_world = []"
    by (simp_all add: no_faults_def empty_world_def)
  from syncTariffs_returns_early [OF this, of queue cfg agreementsReply]
  have no_countries:
    "fst (syncTariffs queue cfg agreementsReply empty_world) = None
     \<and> sync_status (snd (syncTariffs queue cfg agreementsReply empty_world))
         = [\<lparr> sr_id = 1, sr_type = ''tariffs'', sr_status = ''running'', sr_started_at = 0,
               sr_completed_at = None, sr_error_message = None \<rparr>]"
    by (auto simp: empty_world_def)
  have no_products:
    "fst (syncTariffs queue cfg (Inr agreements) (empty_world\<lparr>countries := [canada]\<rparr>)) = None
     \<and> sync_status
          (snd (syncTariffs queue cfg (Inr agreements) (empty_world\<lparr>countries := [canada]\<rparr>)))
         = [\<lparr> sr_id = 1, sr_type = ''tariffs'', sr_status = ''running'', sr_started_at = 0,
               sr_completed_at = None, sr_error_message = None \<rparr>]"
    by (simp add: syncTariffs_def insert_sync_row_def sync_tariffs_body_def request_def
        empty_world_def)
  show ?thesis
    using no_countries no_products by blast
qed

subsection \<open>The updates sync\<close>


















subsection \<open>Validation of upstream payloads\<close>




subsection \<open>The rate limiter under calls that are not awaited\<close>

text \<open>
  C2 fails when more calls are waiting than the window admits. Five calls of
  \<^verbatim>\<open>throttle("x")\<close> are issued at the instant 5000 on a limiter of two requests per second. The
  first two are recorded at once; the third finds the budget used and is suspended for
  1100 ms, and so are the fourth and the fifth, which see the same state. When the three
  timers fire at 6100 each call records its timestamp without checking again: three
  timestamps lie in one window of 1000 ms, against a maximum of two.
\<close>

theorem throttle_burst_exceeds_maxRequests:
  "throttle_begin two_per_second ''x'' 5000 = Recorded (addRequest two_per_second ''x'' 5000)
   \<and> throttle_begin (addRequest two_per_second ''x'' 5000) ''x'' 5000
       = Recorded (addRequest (addRequest two_per_second ''x'' 5000) ''x'' 5000)
   \<and> throttle_begin (addRequest (addRequest two_per_second ''x'' 5000) ''x'' 5000) ''x'' 5000
       = Suspended 1100
   \<and> getTimestamps
        (throttle_resume
           (throttle_resume
              (throttle_resume (addRequest (addRequest two_per_second ''x'' 5000) ''x'' 5000)
                 ''x'' 6100)
              ''x'' 6100)
           ''x'' 6100)
        ''x''
       = [6100, 6100, 6100]
   \<and> maxRequests two_per_second = 2"
  by (simp add: throttle_begin_def throttle_resume_def shouldThrottle_def calculateDelay_def
      addRequest_def in_window_def getTimestamps_def two_per_second_def)

subsection \<open>The retry queue\<close>








subsection \<open>The rate limiter under awaited calls\<close>

lemma getTimestamps_addRequest:
  "getTimestamps (addRequest rl key now) key
     = filter (\<lambda>time. time > now - windowMs rl) (getTimestamps rl key @ [now])"
  by (simp add: addRequest_def getTimestamps_def)

text \<open>
  For calls that are awaited one by one the limiter keeps its promise: when the timer
  fires no earlier than asked, the timestamps kept after a call (those of the trailing
  window) are at most \<^verbatim>\<open>maxRequests\<close>.
\<close>

lemma throttle_awaited_within_budget:
  assumes "0 < maxRequests rl"
      and "length (getTimestamps rl key) \<le> maxRequests rl"
      and "0 \<notin> set (getTimestamps rl key)"
      and "\<And>delay. throttle_begin rl key now = Suspended delay \<Longrightarrow> now + delay \<le> woke"
  shows "length (getTimestamps (throttle_awaited rl key now woke) key) \<le> maxRequests rl"
proof (cases "shouldThrottle rl key now")
  case False
  then have "length (in_window rl key now) < maxRequests rl"
    by (simp add: shouldThrottle_def)
  moreover have "throttle_awaited rl key now woke = addRequest rl key now"
    using False by (simp add: throttle_awaited_def throttle_begin_def)
  ultimately show ?thesis
    by (simp add: getTimestamps_addRequest in_window_def)
next
  case True
  let ?ts = "getTimestamps rl key"
  have "in_window rl key now \<noteq> []"
    using True assms(1) by (auto simp: shouldThrottle_def)
  then have "sort (in_window rl key now) \<noteq> []"
    using length_sort [of "\<lambda>x. x" "in_window rl key now"] by (metis length_0_conv)
  then obtain oldest rest where srt: "sort (in_window rl key now) = oldest # rest"
    by (cases "sort (in_window rl key now)") auto
  have "oldest \<in> set (sort (in_window rl key now))"
    unfolding srt by simp
  then have mem: "oldest \<in> set ?ts"
    by (simp add: in_window_def)
  then have nz: "oldest \<noteq> 0"
    using assms(3) by auto
  have "throttle_begin rl key now = Suspended (oldest + windowMs rl - now + 100)"
    using True nz by (simp add: throttle_begin_def calculateDelay_def srt)
  from assms(4) [OF this] have late: "\<not> oldest > woke - windowMs rl"
    by simp
  have "length (filter (\<lambda>time. time > woke - windowMs rl) ?ts) < length ?ts"
    using mem late by (intro length_filter_less [of oldest]) auto
  moreover have "throttle_awaited rl key now woke = addRequest rl key woke"
    using True by (simp add: throttle_awaited_def throttle_begin_def throttle_resume_def)
  ultimately show ?thesis
    using assms(2) by (simp add: getTimestamps_addRequest)
qed

end
